theory Spec2Isabelle
  imports Complex_Main "HOL-Library.Char_ord" "HOL-Library.List_Lexorder" "HOL-Library.Multiset"
begin

section \<open>Data model (types/drone.ts)\<close>

text \<open>
  The fields of a sample are finite numbers and are modelled as reals.
  \<^verbatim>\<open>DronePosition\<close>, \<^verbatim>\<open>DroneVelocity\<close> and the \<^verbatim>\<open>THREE.Vector3\<close> objects
  built from them all carry the three components x, y, z; they share the record
  \<open>Vec3\<close>, whose fields are written \<open>vx\<close>, \<open>vy\<close>, \<open>vz\<close> so that the
  one-letter names stay free for variables.

  Interpolation, filtering, trajectories and the geometry of the 3D view are modelled
  with real arithmetic: the statements about them say which formula the code applies.
  The statistics and the map projection are modelled with the arithmetic of section
  \<open>JavaScript numbers\<close>, where a result too large for a double becomes an infinity and
  an undefined one \<^verbatim>\<open>NaN\<close>, because what is stated about them depends on it.
\<close>

record Vec3 =
  vx :: real
  vy :: real
  vz :: real

record DroneOrientation =
  pitch :: real
  roll :: real
  yaw :: real

record DroneData =
  droneId :: string
  timePoint :: real
  timeLabel :: "string option"
  swarmId :: string
  swarmLabel :: "string option"
  taskId :: string
  taskLabel :: "string option"
  state :: string
  position :: Vec3
  velocity :: Vec3
  orientation :: DroneOrientation
  batteryPercentage :: real
  detectionRange :: real
  signalIntensity :: real
  videoFeedbackOn :: bool

record BoundingBox =
  bbMin :: Vec3
  bbMax :: Vec3

record DroneSwarmDataset =
  timePoints :: "real list"
  timePointLabels :: "string list option"
  drones :: "DroneData list"
  boundingBox :: BoundingBox

record VisualizationFilters =
  selectedSwarms :: "string list"
  selectedTasks :: "string list"
  selectedStates :: "string list"
  batteryRange :: "real \<times> real"
  showTrajectories :: bool
  showDetectionRanges :: bool
  showVelocityVectors :: bool
  showSignalIntensity :: bool
  showVideoFeedback :: bool

section \<open>Sampling helpers (data/mockData.ts)\<close>

definition getDronesAtTime :: "DroneSwarmDataset \<Rightarrow> real \<Rightarrow> DroneData list" where
  "getDronesAtTime source tp = filter (\<lambda>drone. timePoint drone = tp) (drones source)"

text \<open>
  \<^verbatim>\<open>Array.prototype.sort\<close> is stable, and so is the insertion sort behind
  \<^const>\<open>sort_key\<close>; the comparator \<^verbatim>\<open>a.timePoint - b.timePoint\<close> orders by time point.
\<close>

definition getDroneTrajectory :: "DroneSwarmDataset \<Rightarrow> string \<Rightarrow> DroneData list" where
  "getDroneTrajectory source did =
     sort_key timePoint (filter (\<lambda>drone. droneId drone = did) (drones source))"

section \<open>Dashboard (DroneSwarmDashboard.tsx)\<close>

definition matchesFilters :: "VisualizationFilters \<Rightarrow> DroneData \<Rightarrow> bool" where
  "matchesFilters filters drone \<longleftrightarrow>
     swarmId drone \<in> set (selectedSwarms filters) \<and>
     taskId drone \<in> set (selectedTasks filters) \<and>
     (length (selectedStates filters) = 0 \<or> state drone \<in> set (selectedStates filters)) \<and>
     batteryPercentage drone \<ge> fst (batteryRange filters) \<and>
     batteryPercentage drone \<le> snd (batteryRange filters)"

definition lerp :: "real \<Rightarrow> real \<Rightarrow> real \<Rightarrow> real" where
  "lerp from_v to_v alpha = from_v + (to_v - from_v) * alpha"

text \<open>
  \<^verbatim>\<open>new Map(endDrones.map(drone => [drone.droneId, drone]))\<close>: a later entry with the
  same key replaces an earlier one, so the lookup finds the last drone of that id.
\<close>

definition endById :: "DroneData list \<Rightarrow> string \<Rightarrow> DroneData option" where
  "endById endDrones = map_of (rev (map (\<lambda>drone. (droneId drone, drone)) endDrones))"

text \<open>The object literal returned by the callback of \<^verbatim>\<open>startDrones.map\<close>.\<close>

definition lerpDrone :: "DroneData \<Rightarrow> DroneData \<Rightarrow> real \<Rightarrow> DroneData" where
  "lerpDrone drone next t =
     drone\<lparr>
       position := \<lparr>
         vx = lerp (vx (position drone)) (vx (position next)) t,
         vy = lerp (vy (position drone)) (vy (position next)) t,
         vz = lerp (vz (position drone)) (vz (position next)) t\<rparr>,
       velocity := \<lparr>
         vx = lerp (vx (velocity drone)) (vx (velocity next)) t,
         vy = lerp (vy (velocity drone)) (vy (velocity next)) t,
         vz = lerp (vz (velocity drone)) (vz (velocity next)) t\<rparr>,
       orientation := \<lparr>
         pitch = lerp (pitch (orientation drone)) (pitch (orientation next)) t,
         roll = lerp (roll (orientation drone)) (roll (orientation next)) t,
         yaw = lerp (yaw (orientation drone)) (yaw (orientation next)) t\<rparr>,
       batteryPercentage := lerp (batteryPercentage drone) (batteryPercentage next) t,
       detectionRange := lerp (detectionRange drone) (detectionRange next) t,
       signalIntensity := lerp (signalIntensity drone) (signalIntensity next) t,
       videoFeedbackOn := (if t < 0.5 then videoFeedbackOn drone else videoFeedbackOn next)\<rparr>"

definition interpolatedDrones ::
  "DroneSwarmDataset \<Rightarrow> VisualizationFilters \<Rightarrow> real \<Rightarrow> DroneData list" where
  "interpolatedDrones dataset filters currentTime =
     (if length (timePoints dataset) = 0 then []
      else
        let maxIndex = max 0 (int (length (timePoints dataset)) - 1);
            clampedTime = min (max currentTime 0) (of_int maxIndex);
            startIndex = \<lfloor>clampedTime\<rfloor>;
            endIndex = min (startIndex + 1) maxIndex;
            t = clampedTime - of_int startIndex;
            startDrones = filter (matchesFilters filters)
                            (getDronesAtTime dataset (of_int startIndex))
        in if t = 0 \<or> endIndex = startIndex then startDrones
           else
             let endDrones = filter (matchesFilters filters)
                               (getDronesAtTime dataset (of_int endIndex))
             in map (\<lambda>drone. case endById endDrones (droneId drone) of
                                None \<Rightarrow> drone
                              | Some next \<Rightarrow> lerpDrone drone next t)
                    startDrones)"

text \<open>
  \<^verbatim>\<open>currentDrones\<close>: the interpolated drones followed by the custom drones that pass
  the filter.
\<close>

definition currentDrones ::
  "DroneData list \<Rightarrow> DroneData list \<Rightarrow> VisualizationFilters \<Rightarrow> DroneData list" where
  "currentDrones interpolated customDrones filters =
     interpolated @ filter (matchesFilters filters) customDrones"

record TrajectoryPath =
  pathDroneId :: string
  pathSwarmId :: string
  points :: "(real \<times> real \<times> real) list"

text \<open>
  \<^verbatim>\<open>Array.from(new Set(ids))\<close> keeps the first occurrence of every id, in order;
  \<^const>\<open>remdups\<close> keeps the last one, hence the two reversals.
\<close>

definition uniqueIds :: "DroneData list \<Rightarrow> string list" where
  "uniqueIds ds = rev (remdups (rev (map droneId ds)))"

text \<open>
  The body of \<^verbatim>\<open>uniqueIds.forEach\<close> in \<^verbatim>\<open>trajectoryPaths\<close>: \<open>None\<close> is the early
  \<^verbatim>\<open>return\<close> that pushes nothing, \<open>Some\<close> the pushed path.
\<close>

definition trajectoryFor ::
  "DroneSwarmDataset \<Rightarrow> VisualizationFilters \<Rightarrow> string \<Rightarrow> TrajectoryPath option" where
  "trajectoryFor dataset filters did =
     (let history = filter (matchesFilters filters) (getDroneTrajectory dataset did)
      in if length history \<le> 1 then None
         else Some \<lparr>pathDroneId = did,
                    pathSwarmId = swarmId (history ! (length history - 1)),
                    points = map (\<lambda>entry. (vx (position entry), vy (position entry),
                                             vz (position entry))) history\<rparr>)"

definition trajectoryPaths ::
  "DroneSwarmDataset \<Rightarrow> VisualizationFilters \<Rightarrow> DroneData list \<Rightarrow> TrajectoryPath list" where
  "trajectoryPaths dataset filters current =
     (if \<not> showTrajectories filters then []
      else List.map_filter (trajectoryFor dataset filters) (uniqueIds current))"

section \<open>JavaScript numbers\<close>

text \<open>
  A \<^verbatim>\<open>number\<close> is a finite double, \<^verbatim>\<open>Infinity\<close>, \<^verbatim>\<open>-Infinity\<close> or \<^verbatim>\<open>NaN\<close>.
  The largest double is \<open>2^1024 - 2^971\<close>; a real result is rounded to the nearest
  double, and a result of magnitude \<open>2^1024 - 2^970\<close> or more is rounded to an
  infinity. \<open>toNumber\<close> is that overflow. Two things are left out: a result below the
  bound is kept as the exact real (its rounding to 53 bits is not modelled), and there is
  one zero (no \<open>-0\<close>; a division by zero takes the sign of the dividend).
\<close>

datatype number = Finite real | PosInfinity | NegInfinity | NaN

definition OVERFLOW :: real where
  "OVERFLOW = 2 ^ 1024 - 2 ^ 970"

definition toNumber :: "real \<Rightarrow> number" where
  "toNumber r = (if OVERFLOW \<le> r then PosInfinity
                 else if r \<le> - OVERFLOW then NegInfinity
                 else Finite r)"

fun js_add :: "number \<Rightarrow> number \<Rightarrow> number" where
  "js_add NaN b = NaN"
| "js_add a NaN = NaN"
| "js_add PosInfinity NegInfinity = NaN"
| "js_add NegInfinity PosInfinity = NaN"
| "js_add PosInfinity b = PosInfinity"
| "js_add a PosInfinity = PosInfinity"
| "js_add NegInfinity b = NegInfinity"
| "js_add a NegInfinity = NegInfinity"
| "js_add (Finite a) (Finite b) = toNumber (a + b)"

fun js_negate :: "number \<Rightarrow> number" where
  "js_negate NaN = NaN"
| "js_negate PosInfinity = NegInfinity"
| "js_negate NegInfinity = PosInfinity"
| "js_negate (Finite a) = Finite (- a)"

definition js_sub :: "number \<Rightarrow> number \<Rightarrow> number" where
  "js_sub a b = js_add a (js_negate b)"

fun js_mul :: "number \<Rightarrow> number \<Rightarrow> number" where
  "js_mul NaN b = NaN"
| "js_mul a NaN = NaN"
| "js_mul PosInfinity PosInfinity = PosInfinity"
| "js_mul PosInfinity NegInfinity = NegInfinity"
| "js_mul NegInfinity PosInfinity = NegInfinity"
| "js_mul NegInfinity NegInfinity = PosInfinity"
| "js_mul PosInfinity (Finite b) =
     (if b = 0 then NaN else if 0 < b then PosInfinity else NegInfinity)"
| "js_mul NegInfinity (Finite b) =
     (if b = 0 then NaN else if 0 < b then NegInfinity else PosInfinity)"
| "js_mul (Finite a) PosInfinity =
     (if a = 0 then NaN else if 0 < a then PosInfinity else NegInfinity)"
| "js_mul (Finite a) NegInfinity =
     (if a = 0 then NaN else if 0 < a then NegInfinity else PosInfinity)"
| "js_mul (Finite a) (Finite b) = toNumber (a * b)"

fun js_div :: "number \<Rightarrow> number \<Rightarrow> number" where
  "js_div NaN b = NaN"
| "js_div a NaN = NaN"
| "js_div PosInfinity PosInfinity = NaN"
| "js_div PosInfinity NegInfinity = NaN"
| "js_div NegInfinity PosInfinity = NaN"
| "js_div NegInfinity NegInfinity = NaN"
| "js_div PosInfinity (Finite b) = (if 0 \<le> b then PosInfinity else NegInfinity)"
| "js_div NegInfinity (Finite b) = (if 0 \<le> b then NegInfinity else PosInfinity)"
| "js_div (Finite a) PosInfinity = Finite 0"
| "js_div (Finite a) NegInfinity = Finite 0"
| "js_div (Finite a) (Finite b) =
     (if b = 0
      then (if a = 0 then NaN else if 0 < a then PosInfinity else NegInfinity)
      else toNumber (a / b))"


fun Math_max :: "number \<Rightarrow> number \<Rightarrow> number" where
  "Math_max NaN b = NaN"
| "Math_max a NaN = NaN"
| "Math_max PosInfinity b = PosInfinity"
| "Math_max a PosInfinity = PosInfinity"
| "Math_max NegInfinity b = b"
| "Math_max a NegInfinity = a"
| "Math_max (Finite a) (Finite b) = Finite (max a b)"

fun Math_min :: "number \<Rightarrow> number \<Rightarrow> number" where
  "Math_min NaN b = NaN"
| "Math_min a NaN = NaN"
| "Math_min NegInfinity b = NegInfinity"
| "Math_min a NegInfinity = NegInfinity"
| "Math_min PosInfinity b = b"
| "Math_min a PosInfinity = a"
| "Math_min (Finite a) (Finite b) = Finite (min a b)"



section \<open>Statistics (DroneStatistics.tsx)\<close>










section \<open>Top-down map (DroneRangeMap2D.tsx)\<close>

definition MAP_MIN :: real where "MAP_MIN = 0"
definition MAP_MAX :: real where "MAP_MAX = 100"
definition MAP_SIZE :: number where "MAP_SIZE = js_sub (Finite MAP_MAX) (Finite MAP_MIN)"

definition normalizeToMap :: "number \<Rightarrow> number \<Rightarrow> number \<Rightarrow> number" where
  "normalizeToMap coordinate minValue spn =
     js_add (js_mul (js_div (js_sub coordinate minValue) spn) MAP_SIZE) (Finite MAP_MIN)"

definition EDGE_PADDING :: number where "EDGE_PADDING = js_mul MAP_SIZE (Finite 0.04)"

definition clampWithMargin :: "number \<Rightarrow> number" where
  "clampWithMargin v =
     Math_min (Math_max v (js_add (Finite MAP_MIN) EDGE_PADDING))
              (js_sub (Finite MAP_MAX) EDGE_PADDING)"

text \<open>\<^verbatim>\<open>boundingBox ?? { min: ..., max: ... }\<close>: the prop is optional.\<close>

definition bounds3d :: "BoundingBox option \<Rightarrow> BoundingBox" where
  "bounds3d bb = (case bb of
       Some b \<Rightarrow> b
     | None \<Rightarrow> \<lparr>bbMin = \<lparr>vx = MAP_MIN, vy = 0, vz = MAP_MIN\<rparr>,
                 bbMax = \<lparr>vx = MAP_MAX, vy = 0, vz = MAP_MAX\<rparr>\<rparr>)"

definition spanX :: "BoundingBox option \<Rightarrow> number" where
  "spanX bb =
     Math_max (js_sub (Finite (vx (bbMax (bounds3d bb)))) (Finite (vx (bbMin (bounds3d bb)))))
              (Finite 1)"

definition spanZ :: "BoundingBox option \<Rightarrow> number" where
  "spanZ bb =
     Math_max (js_sub (Finite (vz (bbMax (bounds3d bb)))) (Finite (vz (bbMin (bounds3d bb)))))
              (Finite 1)"

text \<open>
  The coordinates \<open>(x, y)\<close> that the callbacks of \<^verbatim>\<open>circles\<close>, \<^verbatim>\<open>markers\<close> and
  \<^verbatim>\<open>realtimeMarkers\<close> compute for a drone; the three callbacks share these four lines.
\<close>

definition mapPoint :: "BoundingBox option \<Rightarrow> DroneData \<Rightarrow> number \<times> number" where
  "mapPoint bb drone =
     (let normalizedX = normalizeToMap (Finite (vx (position drone)))
                          (Finite (vx (bbMin (bounds3d bb)))) (spanX bb);
          normalizedZ = normalizeToMap (Finite (vz (position drone)))
                          (Finite (vz (bbMin (bounds3d bb)))) (spanZ bb);
          x = clampWithMargin normalizedX;
          y = clampWithMargin (js_sub (Finite MAP_MAX) normalizedZ)
      in (x, y))"

section \<open>3D view (DroneVisualization3D.tsx)\<close>

subsection \<open>The operations of THREE.Vector3 that the file calls\<close>

definition vec_sub :: "Vec3 \<Rightarrow> Vec3 \<Rightarrow> Vec3" where
  "vec_sub a b = \<lparr>vx = vx a - vx b, vy = vy a - vy b, vz = vz a - vz b\<rparr>"


definition vec_dot :: "Vec3 \<Rightarrow> Vec3 \<Rightarrow> real" where
  "vec_dot a b = vx a * vx b + vy a * vy b + vz a * vz b"




definition addScaledVector :: "Vec3 \<Rightarrow> Vec3 \<Rightarrow> real \<Rightarrow> Vec3" where
  "addScaledVector a v s = \<lparr>vx = vx a + vx v * s, vy = vy a + vy v * s, vz = vz a + vz v * s\<rparr>"

definition distanceTo :: "Vec3 \<Rightarrow> Vec3 \<Rightarrow> real" where
  "distanceTo a b =
     (let dx = vx a - vx b; dy = vy a - vy b; dz = vz a - vz b
      in sqrt (dx * dx + dy * dy + dz * dz))"

subsection \<open>Velocity vectors and their near intersections\<close>






record ClosestPoints =
  pointA :: Vec3
  pointB :: Vec3
  distance :: real

definition EPS :: real where "EPS = 1 / 1000000"

text \<open>
  The mutable locals \<^verbatim>\<open>sN, sD, tN, tD\<close> are threaded as a tuple: the first \<open>let\<close> is
  the \<^verbatim>\<open>if (a <= EPS) ... else if (c <= EPS) ... else\<close> block, the second the
  \<^verbatim>\<open>if (tN < 0) ... else if (tN > tD)\<close> block.
\<close>

definition closestPointsBetweenSegments :: "Vec3 \<Rightarrow> Vec3 \<Rightarrow> Vec3 \<Rightarrow> Vec3 \<Rightarrow> ClosestPoints" where
  "closestPointsBetweenSegments p1 p2 q1 q2 =
     (let u = vec_sub p2 p1;
          v = vec_sub q2 q1;
          w = vec_sub p1 q1;
          a = vec_dot u u;
          b = vec_dot u v;
          c = vec_dot v v;
          d = vec_dot u w;
          e = vec_dot v w
      in if a \<le> EPS \<and> c \<le> EPS
         then \<lparr>pointA = p1, pointB = q1, distance = distanceTo p1 q1\<rparr>
         else
           let (sN, sD, tN, tD) =
                 (if a \<le> EPS then (0, 1, e, c)
                  else if c \<le> EPS then (- d, a, 0, 1)
                  else if b * e - c * d < 0 then (0, a, e, c)
                  else if b * e - c * d > a then (a, a, e + b, c)
                  else (b * e - c * d, a, a * e - b * d, c));
               (sN, sD, tN) =
                 (if tN < 0
                  then (if - d < 0 then (0, sD, 0)
                        else if - d > a then (sD, sD, 0)
                        else (- d, a, 0))
                  else if tN > tD
                  then (if - d + b < 0 then (0, sD, tD)
                        else if - d + b > a then (sD, sD, tD)
                        else (- d + b, a, tD))
                  else (sN, sD, tN));
               sc = (if \<bar>sN\<bar> < EPS then 0 else sN / sD);
               tc = (if \<bar>tN\<bar> < EPS then 0 else tN / tD);
               pA = addScaledVector p1 u sc;
               pB = addScaledVector q1 v tc
           in \<lparr>pointA = pA, pointB = pB, distance = distanceTo pA pB\<rparr>)"










section \<open>Fixtures\<close>

text \<open>Samples of the shipped dataset (data/excelDataset.ts), and an excerpt of it.\<close>

definition drone1_t0 :: DroneData where
  "drone1_t0 = \<lparr>droneId = ''drone-1'', timePoint = 0, timeLabel = Some ''TP1'',
     swarmId = ''none'', swarmLabel = Some ''No Swarm'',
     taskId = ''taking-off'', taskLabel = Some ''Taking Off'', state = ''taking-off'',
     position = \<lparr>vx = 6, vy = 5, vz = 7\<rparr>,
     velocity = \<lparr>vx = 2.1, vy = 2.3, vz = 1.04\<rparr>,
     orientation = \<lparr>pitch = 22.1, roll = 2.3, yaw = 48.2\<rparr>,
     batteryPercentage = 98, detectionRange = 50, signalIntensity = 5,
     videoFeedbackOn = True\<rparr>"

definition drone1_t1 :: DroneData where
  "drone1_t1 = \<lparr>droneId = ''drone-1'', timePoint = 1, timeLabel = Some ''TP2'',
     swarmId = ''alpha'', swarmLabel = Some ''Alpha'',
     taskId = ''entering-swarm'', taskLabel = Some ''Entering Swarm'',
     state = ''entering-swarm'',
     position = \<lparr>vx = 21, vy = 23, vz = 10.4\<rparr>,
     velocity = \<lparr>vx = 1.9, vy = 2.56, vz = 0.94\<rparr>,
     orientation = \<lparr>pitch = 18.4, roll = - 1.5, yaw = 52.7\<rparr>,
     batteryPercentage = 98, detectionRange = 50, signalIntensity = 5,
     videoFeedbackOn = True\<rparr>"

definition drone2_t0 :: DroneData where
  "drone2_t0 = \<lparr>droneId = ''drone-2'', timePoint = 0, timeLabel = Some ''TP1'',
     swarmId = ''none'', swarmLabel = Some ''No Swarm'',
     taskId = ''taking-off'', taskLabel = Some ''Taking Off'', state = ''taking-off'',
     position = \<lparr>vx = 96, vy = 40, vz = 20\<rparr>,
     velocity = \<lparr>vx = - 2.1, vy = 0.96, vz = 0.04\<rparr>,
     orientation = \<lparr>pitch = 0.9, roll = - 2.5, yaw = 160.1\<rparr>,
     batteryPercentage = 100, detectionRange = 50, signalIntensity = 4,
     videoFeedbackOn = False\<rparr>"

definition drone2_t1 :: DroneData where
  "drone2_t1 = \<lparr>droneId = ''drone-2'', timePoint = 1, timeLabel = Some ''TP2'',
     swarmId = ''none'', swarmLabel = Some ''No Swarm'',
     taskId = ''passing-by'', taskLabel = Some ''Passing By'', state = ''passing-by'',
     position = \<lparr>vx = 75, vy = 49.6, vz = 20.4\<rparr>,
     velocity = \<lparr>vx = - 2.24, vy = 1.04, vz = - 0.02\<rparr>,
     orientation = \<lparr>pitch = - 1.1, roll = 4.1, yaw = 155.3\<rparr>,
     batteryPercentage = 98, detectionRange = 50, signalIntensity = 5,
     videoFeedbackOn = True\<rparr>"

definition drone4_t4 :: DroneData where
  "drone4_t4 = \<lparr>droneId = ''drone-4'', timePoint = 4, timeLabel = Some ''TP5'',
     swarmId = ''beta'', swarmLabel = Some ''Beta'',
     taskId = ''descending'', taskLabel = Some ''Descending'', state = ''descending'',
     position = \<lparr>vx = 39, vy = 52, vz = 30.4\<rparr>,
     velocity = \<lparr>vx = - 1.6, vy = 2, vz = 1.25\<rparr>,
     orientation = \<lparr>pitch = 28.2, roll = - 4, yaw = - 126.5\<rparr>,
     batteryPercentage = 91, detectionRange = 50, signalIntensity = 3,
     videoFeedbackOn = False\<rparr>"

definition excelBox :: BoundingBox where
  "excelBox = \<lparr>bbMin = \<lparr>vx = - 17.4, vy = 5, vz = 0\<rparr>,
                bbMax = \<lparr>vx = 96, vy = 96.3, vz = 52.7\<rparr>\<rparr>"

definition excelSample :: DroneSwarmDataset where
  "excelSample = \<lparr>timePoints = [0, 1, 2, 3, 4, 5],
     timePointLabels = Some [''TP1'', ''TP2'', ''TP3'', ''TP4'', ''TP5'', ''TP6''],
     drones = [drone1_t0, drone1_t1, drone2_t0, drone2_t1, drone4_t4],
     boundingBox = excelBox\<rparr>"

text \<open>
  The initial filter state of the dashboard for that dataset (every swarm, task and state
  of its metadata selected, the whole battery range), and three narrower selections.
\<close>

definition initialFilters :: VisualizationFilters where
  "initialFilters = \<lparr>
     selectedSwarms = [''none'', ''alpha'', ''beta''],
     selectedTasks = [''taking-off'', ''entering-swarm'', ''hovering'', ''passing-by'',
                      ''attacking'', ''returning'', ''parachute-deployment'', ''descending''],
     selectedStates = [''taking-off'', ''entering-swarm'', ''hovering'', ''passing-by'',
                       ''attacking'', ''returning'', ''parachute-deployment'', ''descending''],
     batteryRange = (0, 100),
     showTrajectories = False, showDetectionRanges = False, showVelocityVectors = False,
     showSignalIntensity = True, showVideoFeedback = True\<rparr>"

definition alphaOnly :: VisualizationFilters where
  "alphaOnly = initialFilters\<lparr>selectedSwarms := [''alpha'']\<rparr>"

definition noSwarmOnly :: VisualizationFilters where
  "noSwarmOnly = initialFilters\<lparr>selectedSwarms := [''none'']\<rparr>"

definition fullBattery :: VisualizationFilters where
  "fullBattery = initialFilters\<lparr>batteryRange := (99.5, 100)\<rparr>"

definition hoverOnly :: VisualizationFilters where
  "hoverOnly = initialFilters\<lparr>selectedStates := [''hovering'']\<rparr>"

definition noStateFilter :: VisualizationFilters where
  "noStateFilter = initialFilters\<lparr>selectedStates := []\<rparr>"






text \<open>
  The initial filters with trajectories switched on; and inputs at the edge of the double
  range: a box from \<open>-2^1023\<close> to \<open>2^1023\<close> on both axes with a drone in its corner,
  and two drones of detection range \<open>2^600\<close> whose centres are \<open>2^600\<close> apart.
\<close>

definition trajectoriesOn :: VisualizationFilters where
  "trajectoriesOn = initialFilters\<lparr>showTrajectories := True\<rparr>"

definition hugeBox :: BoundingBox where
  "hugeBox = \<lparr>bbMin = \<lparr>vx = - (2 ^ 1023), vy = 0, vz = - (2 ^ 1023)\<rparr>,
               bbMax = \<lparr>vx = 2 ^ 1023, vy = 0, vz = 2 ^ 1023\<rparr>\<rparr>"

definition cornerDrone :: DroneData where
  "cornerDrone = drone1_t0\<lparr>position := \<lparr>vx = 2 ^ 1023, vy = 5, vz = 2 ^ 1023\<rparr>\<rparr>"



section \<open>Facts about the fixtures\<close>

lemmas drone_fixtures = drone1_t0_def drone1_t1_def drone2_t0_def drone2_t1_def drone4_t4_def

lemma excel_at0: "getDronesAtTime excelSample 0 = [drone1_t0, drone2_t0]"
  by (simp add: getDronesAtTime_def excelSample_def drone_fixtures)

lemma excel_at1: "getDronesAtTime excelSample 1 = [drone1_t1, drone2_t1]"
  by (simp add: getDronesAtTime_def excelSample_def drone_fixtures)

lemma excel_len: "length (timePoints excelSample) = 6"
  by (simp add: excelSample_def)

lemma excel_nonempty: "timePoints excelSample \<noteq> []"
  by (simp add: excelSample_def)

lemma initial_all:
  "matchesFilters initialFilters drone1_t0" "matchesFilters initialFilters drone1_t1"
  "matchesFilters initialFilters drone2_t0" "matchesFilters initialFilters drone2_t1"
  by (simp_all add: matchesFilters_def initialFilters_def drone_fixtures)

lemma half_frac: "(0::real) < 1/2 - of_int \<lfloor>1/2::real\<rfloor>"
  by simp

section \<open>JavaScript numbers: basic facts\<close>

lemma OVERFLOW_gt: "2 ^ 64 < OVERFLOW"
  by (simp add: OVERFLOW_def)

lemma OVERFLOW_pos: "0 < OVERFLOW"
  using OVERFLOW_gt by (rule less_trans [rotated]) simp


lemma toNumber_Finite: "\<bar>r\<bar> < OVERFLOW \<Longrightarrow> toNumber r = Finite r"
  by (auto simp: toNumber_def)

lemma toNumber_small: "\<bar>r\<bar> \<le> 2 ^ 64 \<Longrightarrow> toNumber r = Finite r"
  using OVERFLOW_gt by (intro toNumber_Finite) (rule le_less_trans)

lemma toNumber_not_NaN [simp]: "toNumber r \<noteq> NaN"
  by (simp add: toNumber_def)


lemma toNumber_NegInfinity: "toNumber r = NegInfinity \<longleftrightarrow> r \<le> - OVERFLOW"
  using OVERFLOW_pos by (auto simp: toNumber_def)

lemma toNumber_eq_Finite: "toNumber r = Finite q \<longleftrightarrow> q = r \<and> \<bar>r\<bar> < OVERFLOW"
  using OVERFLOW_pos by (auto simp: toNumber_def)

lemma js_sub_Finite [simp]: "js_sub (Finite a) (Finite b) = toNumber (a - b)"
  by (simp add: js_sub_def)

section \<open>Time sampling\<close>

lemma endById_SomeD: "endById E k = Some n \<Longrightarrow> n \<in> set E \<and> droneId n = k"
  unfolding endById_def by (auto dest!: map_of_SomeD)

lemma endById_None_iff: "endById E k = None \<longleftrightarrow> k \<notin> droneId ` set E"
  unfolding endById_def by (simp add: map_of_eq_None_iff image_image)

lemma endById_unique:
  assumes "n \<in> set E" and "\<forall>m\<in>set E. droneId m = droneId n \<longrightarrow> m = n"
  shows "endById E (droneId n) = Some n"
proof (cases "endById E (droneId n)")
  case None
  then show ?thesis using assms(1) by (auto simp: endById_None_iff)
next
  case (Some m)
  then have "m \<in> set E \<and> droneId m = droneId n" by (rule endById_SomeD)
  then show ?thesis using assms(2) Some by auto
qed

lemma droneId_interp:
  "droneId (case opt of None \<Rightarrow> d | Some next \<Rightarrow> lerpDrone d next a) = droneId d"
  by (simp add: lerpDrone_def split: option.split)

text \<open>
  At a time strictly between two indices the clamp is the identity, the end index is the
  next index, and the output is the mapped list of the filtered start samples.
\<close>

lemma interpolatedDrones_fractional:
  assumes tp: "timePoints ds \<noteq> []"
    and lo: "0 \<le> time" and hi: "time \<le> real (length (timePoints ds)) - 1"
    and frac: "0 < time - of_int \<lfloor>time\<rfloor>"
  shows "interpolatedDrones ds f time =
     map (\<lambda>drone. case endById (filter (matchesFilters f)
                                  (getDronesAtTime ds (of_int (\<lfloor>time\<rfloor> + 1)))) (droneId drone) of
                     None \<Rightarrow> drone
                   | Some next \<Rightarrow> lerpDrone drone next (time - of_int \<lfloor>time\<rfloor>))
         (filter (matchesFilters f) (getDronesAtTime ds (of_int \<lfloor>time\<rfloor>)))"
proof -
  let ?n = "int (length (timePoints ds))"
  have m: "max 0 (?n - 1) = ?n - 1"
    using tp by (cases "timePoints ds") simp_all
  have hi': "time \<le> of_int (?n - 1)" using hi by simp
  have c: "min (max time 0) (of_int (?n - 1)) = time"
    using lo hi' by (simp add: min_def max_def)
  have "\<lfloor>time\<rfloor> \<le> ?n - 1" using hi' by (simp add: floor_le_iff) linarith
  moreover have "\<lfloor>time\<rfloor> \<noteq> ?n - 1"
  proof
    assume "\<lfloor>time\<rfloor> = ?n - 1"
    then have "of_int (?n - 1) < time" using frac by simp
    then show False using hi' by simp
  qed
  ultimately have e: "min (\<lfloor>time\<rfloor> + 1) (?n - 1) = \<lfloor>time\<rfloor> + 1" by simp
  have fr: "time - of_int \<lfloor>time\<rfloor> \<noteq> 0" using frac by simp
  show ?thesis
    unfolding interpolatedDrones_def Let_def m c e
    using tp fr by (simp del: of_int_add of_int_diff)
qed

text \<open>
  C1 (as the code has it). At an integer time \<open>t\<close> in \<open>[0, maxIndex]\<close> of a dataset
  with at least one time point, \<^verbatim>\<open>interpolatedDrones\<close> returns the samples of
  \<^verbatim>\<open>getDronesAtTime(dataset, t)\<close> that pass \<^verbatim>\<open>matchesFilters\<close>, in dataset order and
  each unmodified: no interpolation is applied at an integer boundary. The filter is part
  of the function, so the result is the whole sample set only when every sample passes.
\<close>

theorem interpolatedDrones_integer:
  assumes "timePoints ds \<noteq> []" and "0 \<le> t" and "t \<le> int (length (timePoints ds)) - 1"
  shows "interpolatedDrones ds f (of_int t) =
           filter (matchesFilters f) (getDronesAtTime ds (of_int t))"
proof -
  have m: "max 0 (int (length (timePoints ds)) - 1) = int (length (timePoints ds)) - 1"
    using assms by simp
  have c: "min (max (of_int t) 0) (of_int (int (length (timePoints ds)) - 1)) = (of_int t :: real)"
    using assms(2,3) by (simp add: min_def max_def)
  show ?thesis
    using assms(1) by (simp add: interpolatedDrones_def m c Let_def del: of_int_diff)
qed

theorem interpolatedDrones_integer_witness:
  "timePoints excelSample \<noteq> [] \<and> (0::int) \<le> 1 \<and>
   1 \<le> int (length (timePoints excelSample)) - 1 \<and>
   interpolatedDrones excelSample noSwarmOnly (of_int 1) = [drone2_t1]"
proof -
  have lo: "(0::int) \<le> 1" by simp
  have hi: "1 \<le> int (length (timePoints excelSample)) - 1" by (simp add: excel_len)
  have "filter (matchesFilters noSwarmOnly) (getDronesAtTime excelSample (of_int 1)) = [drone2_t1]"
    by (simp add: excel_at1 matchesFilters_def noSwarmOnly_def initialFilters_def drone_fixtures)
  then show ?thesis
    using interpolatedDrones_integer [OF excel_nonempty lo hi, of noSwarmOnly] excel_nonempty lo hi
    by simp
qed

text \<open>
  The claim as the specification words it, equality with the unfiltered sample set, fails
  once the filter rejects a sample: with only the swarm \<open>alpha\<close> selected, time 0 of the
  excerpt yields no drone, while two samples carry time point 0.
\<close>

theorem interpolatedDrones_integer_counterexample:
  "interpolatedDrones excelSample alphaOnly 0 \<noteq> getDronesAtTime excelSample 0"
  by (simp add: interpolatedDrones_def excel_at0 excel_len matchesFilters_def alphaOnly_def
      initialFilters_def drone1_t0_def drone2_t0_def)

text \<open>
  C2 (as the code has it). At a time whose fractional part \<open>a\<close> is positive (hence below
  1), let \<open>S\<close> be the start-index samples that pass the filter and \<open>E\<close> the end-index
  samples that pass it. The output has one drone per element of \<open>S\<close>, in order. For the
  \<open>i\<close>-th of them, if \<open>E\<close> holds a sample \<open>n\<close> of the same id (the only one of that
  id), position, velocity, orientation, battery percentage, detection range and signal
  intensity are \<open>from + (to - from) * a\<close> component by component, and
  \<^verbatim>\<open>videoFeedbackOn\<close> is the start value while \<open>a < 0.5\<close> and the end value otherwise.
\<close>

theorem interpolated_fields:
  assumes tp: "timePoints ds \<noteq> []"
    and lo: "0 \<le> time" and hi: "time \<le> real (length (timePoints ds)) - 1"
    and frac: "0 < time - of_int \<lfloor>time\<rfloor>"
    and S: "S = filter (matchesFilters f) (getDronesAtTime ds (of_int \<lfloor>time\<rfloor>))"
    and E: "E = filter (matchesFilters f) (getDronesAtTime ds (of_int (\<lfloor>time\<rfloor> + 1)))"
    and i: "i < length S"
    and n: "n \<in> set E" "droneId n = droneId (S ! i)"
    and uniq: "\<forall>m\<in>set E. droneId m = droneId n \<longrightarrow> m = n"
    and a: "a = time - of_int \<lfloor>time\<rfloor>"
    and r: "r = interpolatedDrones ds f time ! i"
  shows "a < 1 \<and> length (interpolatedDrones ds f time) = length S \<and>
    droneId r = droneId (S ! i) \<and>
    vx (position r) = vx (position (S ! i)) + (vx (position n) - vx (position (S ! i))) * a \<and>
    vy (position r) = vy (position (S ! i)) + (vy (position n) - vy (position (S ! i))) * a \<and>
    vz (position r) = vz (position (S ! i)) + (vz (position n) - vz (position (S ! i))) * a \<and>
    vx (velocity r) = vx (velocity (S ! i)) + (vx (velocity n) - vx (velocity (S ! i))) * a \<and>
    vy (velocity r) = vy (velocity (S ! i)) + (vy (velocity n) - vy (velocity (S ! i))) * a \<and>
    vz (velocity r) = vz (velocity (S ! i)) + (vz (velocity n) - vz (velocity (S ! i))) * a \<and>
    pitch (orientation r) =
      pitch (orientation (S ! i)) + (pitch (orientation n) - pitch (orientation (S ! i))) * a \<and>
    roll (orientation r) =
      roll (orientation (S ! i)) + (roll (orientation n) - roll (orientation (S ! i))) * a \<and>
    yaw (orientation r) =
      yaw (orientation (S ! i)) + (yaw (orientation n) - yaw (orientation (S ! i))) * a \<and>
    batteryPercentage r =
      batteryPercentage (S ! i) + (batteryPercentage n - batteryPercentage (S ! i)) * a \<and>
    detectionRange r =
      detectionRange (S ! i) + (detectionRange n - detectionRange (S ! i)) * a \<and>
    signalIntensity r =
      signalIntensity (S ! i) + (signalIntensity n - signalIntensity (S ! i)) * a \<and>
    videoFeedbackOn r = (if a < 0.5 then videoFeedbackOn (S ! i) else videoFeedbackOn n)"
proof -
  have look: "endById E (droneId (S ! i)) = Some n"
    using endById_unique [OF n(1) uniq] n(2) by simp
  have out: "interpolatedDrones ds f time =
      map (\<lambda>drone. case endById E (droneId drone) of
                      None \<Rightarrow> drone | Some next \<Rightarrow> lerpDrone drone next a) S"
    unfolding S E a by (rule interpolatedDrones_fractional [OF tp lo hi frac])
  have ri: "r = lerpDrone (S ! i) n a"
    unfolding r out using i look by simp
  have "a < 1" unfolding a by linarith
  then show ?thesis
    unfolding ri by (simp add: out lerpDrone_def lerp_def)
qed

text \<open>
  Scenario A on the excerpt of the shipped dataset, all filters open: drone-1 has
  \<open>x = 6\<close> at time point 0 and \<open>x = 21\<close> at time point 1, and \<open>x = 13.5\<close> at time 0.5.
\<close>

theorem interpolated_fields_witness:
  "timePoints excelSample \<noteq> [] \<and> (0::real) \<le> 1/2 \<and>
   1/2 \<le> real (length (timePoints excelSample)) - 1 \<and>
   (0::real) < 1/2 - of_int \<lfloor>1/2::real\<rfloor> \<and>
   filter (matchesFilters initialFilters) (getDronesAtTime excelSample (of_int \<lfloor>1/2::real\<rfloor>))
     = [drone1_t0, drone2_t0] \<and>
   drone1_t1 \<in> set (filter (matchesFilters initialFilters)
                       (getDronesAtTime excelSample (of_int (\<lfloor>1/2::real\<rfloor> + 1)))) \<and>
   vx (position drone1_t0) = 6 \<and> vx (position drone1_t1) = 21 \<and>
   vx (position (interpolatedDrones excelSample initialFilters (1/2) ! 0)) = 13.5"
proof -
  let ?S = "filter (matchesFilters initialFilters)
              (getDronesAtTime excelSample (of_int \<lfloor>1/2::real\<rfloor>))"
  let ?E = "filter (matchesFilters initialFilters)
              (getDronesAtTime excelSample (of_int (\<lfloor>1/2::real\<rfloor> + 1)))"
  have lo: "(0::real) \<le> 1/2" by simp
  have hi: "1/2 \<le> real (length (timePoints excelSample)) - 1" by (simp add: excel_len)
  have S: "?S = [drone1_t0, drone2_t0]" by (simp add: excel_at0 initial_all)
  have E: "?E = [drone1_t1, drone2_t1]" by (simp add: excel_at1 initial_all)
  have i: "0 < length ?S" unfolding S by simp
  have n: "drone1_t1 \<in> set ?E" unfolding E by simp
  have same: "droneId drone1_t1 = droneId (?S ! 0)" unfolding S by (simp add: drone_fixtures)
  have uniq: "\<forall>m\<in>set ?E. droneId m = droneId drone1_t1 \<longrightarrow> m = drone1_t1"
    unfolding E by (simp add: drone_fixtures)
  have "vx (position (interpolatedDrones excelSample initialFilters (1/2) ! 0)) =
          vx (position (?S ! 0)) + (vx (position drone1_t1) - vx (position (?S ! 0))) *
            (1/2 - of_int \<lfloor>1/2::real\<rfloor>)"
    using interpolated_fields [OF excel_nonempty lo hi half_frac refl refl i n same uniq refl refl]
    by blast
  also have "\<dots> = 13.5" unfolding S by (simp add: drone_fixtures)
  finally have x: "vx (position (interpolatedDrones excelSample initialFilters (1/2) ! 0)) = 13.5" .
  have v: "vx (position drone1_t0) = 6 \<and> vx (position drone1_t1) = 21"
    by (simp add: drone_fixtures)
  show ?thesis using excel_nonempty lo hi half_frac S n x v by blast
qed

text \<open>
  The claim as worded, every start agent whose id exists at the end index is interpolated,
  fails when the end sample is filtered out: with only the swarm \<open>none\<close> selected,
  drone-1 is sampled at time points 0 and 1 (its second sample is in swarm \<open>alpha\<close>),
  yet at time 0.5 it is returned as its start sample, \<open>x = 6\<close> and not \<open>13.5\<close>.
\<close>

theorem interpolated_fields_counterexample:
  "drone1_t0 \<in> set (getDronesAtTime excelSample 0) \<and>
   drone1_t1 \<in> set (getDronesAtTime excelSample 1) \<and>
   droneId drone1_t1 = droneId drone1_t0 \<and>
   interpolatedDrones excelSample noSwarmOnly (1/2) ! 0 = drone1_t0 \<and>
   vx (position (interpolatedDrones excelSample noSwarmOnly (1/2) ! 0)) = 6 \<and>
   vx (position (interpolatedDrones excelSample noSwarmOnly (1/2) ! 0)) \<noteq>
     vx (position drone1_t0) + (vx (position drone1_t1) - vx (position drone1_t0)) * (1/2)"
  by (simp add: interpolatedDrones_def excel_at0 excel_at1 excel_len matchesFilters_def
      noSwarmOnly_def initialFilters_def endById_def drone_fixtures)

text \<open>
  C10. At a fractional time the filter is applied to the stored start-index and end-index
  samples only. The ids of the output are exactly the ids of the start samples that pass
  the filter, whatever the interpolated values are; and a start sample that passes the
  filter while no end-index sample of its id does is returned as it is stored.
\<close>

theorem filter_on_stored_samples:
  assumes tp: "timePoints ds \<noteq> []"
    and lo: "0 \<le> time" and hi: "time \<le> real (length (timePoints ds)) - 1"
    and frac: "0 < time - of_int \<lfloor>time\<rfloor>"
  shows "map droneId (interpolatedDrones ds f time) =
           map droneId (filter (matchesFilters f) (getDronesAtTime ds (of_int \<lfloor>time\<rfloor>))) \<and>
         (\<forall>d\<in>set (getDronesAtTime ds (of_int \<lfloor>time\<rfloor>)).
            matchesFilters f d \<longrightarrow>
              (\<exists>r\<in>set (interpolatedDrones ds f time). droneId r = droneId d) \<and>
              ((\<forall>n\<in>set (getDronesAtTime ds (of_int (\<lfloor>time\<rfloor> + 1))).
                  droneId n = droneId d \<longrightarrow> \<not> matchesFilters f n)
                \<longrightarrow> d \<in> set (interpolatedDrones ds f time)))"
proof -
  let ?S = "filter (matchesFilters f) (getDronesAtTime ds (of_int \<lfloor>time\<rfloor>))"
  let ?E = "filter (matchesFilters f) (getDronesAtTime ds (of_int (\<lfloor>time\<rfloor> + 1)))"
  let ?g = "\<lambda>drone. case endById ?E (droneId drone) of
                      None \<Rightarrow> drone | Some next \<Rightarrow> lerpDrone drone next (time - of_int \<lfloor>time\<rfloor>)"
  have out: "interpolatedDrones ds f time = map ?g ?S"
    by (rule interpolatedDrones_fractional [OF tp lo hi frac])
  have id: "droneId (?g d) = droneId d" for d
    by (rule droneId_interp)
  have ids: "map droneId (interpolatedDrones ds f time) = map droneId ?S"
    unfolding out map_map comp_def id ..
  have incl: "\<exists>r\<in>set (interpolatedDrones ds f time). droneId r = droneId d"
    if "d \<in> set ?S" for d
  proof -
    have "?g d \<in> set (interpolatedDrones ds f time)"
      unfolding out using that by (simp only: set_map image_eqI)
    then show ?thesis using id by blast
  qed
  have keep: "d \<in> set (interpolatedDrones ds f time)"
    if d: "d \<in> set ?S"
      and no: "\<forall>n\<in>set (getDronesAtTime ds (of_int (\<lfloor>time\<rfloor> + 1))).
                 droneId n = droneId d \<longrightarrow> \<not> matchesFilters f n" for d
  proof -
    have "droneId d \<notin> droneId ` set ?E" using no by auto
    then have "endById ?E (droneId d) = None" using endById_None_iff by blast
    then have "?g d = d" by simp
    moreover have "?g d \<in> set (map ?g ?S)" using d by (simp only: set_map image_eqI)
    ultimately show ?thesis unfolding out by simp
  qed
  have mem: "d \<in> set ?S" if "d \<in> set (getDronesAtTime ds (of_int \<lfloor>time\<rfloor>))"
    and "matchesFilters f d" for d
    using that by simp
  show ?thesis using ids incl keep mem by blast
qed

text \<open>
  On the excerpt with the battery range \<open>[99.5, 100]\<close>: drone-2 passes at time point 0
  (battery 100) and fails at time point 1 (battery 98). Interpolated to time 0.5 it would
  have battery 99 and fail the filter; it is in the output, with its stored start values.
\<close>

theorem filter_on_stored_samples_witness:
  "timePoints excelSample \<noteq> [] \<and> (0::real) \<le> 1/2 \<and>
   1/2 \<le> real (length (timePoints excelSample)) - 1 \<and>
   (0::real) < 1/2 - of_int \<lfloor>1/2::real\<rfloor> \<and>
   drone2_t0 \<in> set (getDronesAtTime excelSample (of_int \<lfloor>1/2::real\<rfloor>)) \<and>
   matchesFilters fullBattery drone2_t0 \<and>
   \<not> matchesFilters fullBattery drone2_t1 \<and>
   \<not> matchesFilters fullBattery (lerpDrone drone2_t0 drone2_t1 (1/2)) \<and>
   drone2_t0 \<in> set (interpolatedDrones excelSample fullBattery (1/2)) \<and>
   map droneId (interpolatedDrones excelSample fullBattery (1/2)) = [''drone-2'']"
proof -
  have lo: "(0::real) \<le> 1/2" by simp
  have hi: "1/2 \<le> real (length (timePoints excelSample)) - 1" by (simp add: excel_len)
  note main = filter_on_stored_samples [OF excel_nonempty lo hi half_frac, of fullBattery]
  have d: "drone2_t0 \<in> set (getDronesAtTime excelSample (of_int \<lfloor>1/2::real\<rfloor>))"
    by (simp add: excel_at0)
  have m: "matchesFilters fullBattery drone2_t0"
    by (simp add: matchesFilters_def fullBattery_def initialFilters_def drone_fixtures)
  have m0: "\<not> matchesFilters fullBattery drone1_t0"
    by (simp add: matchesFilters_def fullBattery_def initialFilters_def drone_fixtures)
  have m1: "\<not> matchesFilters fullBattery drone2_t1"
    by (simp add: matchesFilters_def fullBattery_def initialFilters_def drone_fixtures)
  have m2: "\<not> matchesFilters fullBattery (lerpDrone drone2_t0 drone2_t1 (1/2))"
    by (simp add: matchesFilters_def fullBattery_def initialFilters_def drone_fixtures
        lerpDrone_def lerp_def)
  have no: "\<forall>n\<in>set (getDronesAtTime excelSample (of_int (\<lfloor>1/2::real\<rfloor> + 1))).
              droneId n = droneId drone2_t0 \<longrightarrow> \<not> matchesFilters fullBattery n"
    using m1 by (simp add: excel_at1 drone_fixtures)
  have kept: "drone2_t0 \<in> set (interpolatedDrones excelSample fullBattery (1/2))"
    using main d m no by blast
  have "filter (matchesFilters fullBattery) (getDronesAtTime excelSample (of_int \<lfloor>1/2::real\<rfloor>))
          = [drone2_t0]"
    using m m0 by (simp add: excel_at0)
  then have "map droneId (interpolatedDrones excelSample fullBattery (1/2)) = [droneId drone2_t0]"
    using main by simp
  then have ids: "map droneId (interpolatedDrones excelSample fullBattery (1/2)) = [''drone-2'']"
    by (simp add: drone2_t0_def)
  show ?thesis using lo hi half_frac excel_nonempty d m m1 m2 kept ids by blast
qed

section \<open>Filtering\<close>

text \<open>
  C6. With an empty \<^verbatim>\<open>selectedStates\<close> the state clause is dropped: the predicate is
  the conjunction of swarm membership, task membership and the inclusive battery range,
  and it does not depend on the state tag. With a non-empty selection state membership
  joins the conjunction; the selection \<open>[hovering]\<close> rejects a \<open>descending\<close> drone.
\<close>

theorem matchesFilters_clauses:
  "(selectedStates f = [] \<longrightarrow>
      matchesFilters f d =
        (swarmId d \<in> set (selectedSwarms f) \<and> taskId d \<in> set (selectedTasks f) \<and>
         fst (batteryRange f) \<le> batteryPercentage d \<and>
         batteryPercentage d \<le> snd (batteryRange f))) \<and>
   (selectedStates f \<noteq> [] \<longrightarrow>
      matchesFilters f d =
        (swarmId d \<in> set (selectedSwarms f) \<and> taskId d \<in> set (selectedTasks f) \<and>
         state d \<in> set (selectedStates f) \<and>
         fst (batteryRange f) \<le> batteryPercentage d \<and>
         batteryPercentage d \<le> snd (batteryRange f))) \<and>
   matchesFilters (f\<lparr>selectedStates := []\<rparr>) (d\<lparr>state := s\<rparr>) =
     matchesFilters (f\<lparr>selectedStates := []\<rparr>) d \<and>
   \<not> matchesFilters (f\<lparr>selectedStates := [''hovering'']\<rparr>) (d\<lparr>state := ''descending''\<rparr>)"
  by (simp add: matchesFilters_def)

theorem matchesFilters_clauses_witness:
  "selectedStates noStateFilter = [] \<and> matchesFilters noStateFilter drone4_t4 \<and>
   selectedStates hoverOnly \<noteq> [] \<and> state drone4_t4 = ''descending'' \<and>
   \<not> matchesFilters hoverOnly drone4_t4"
  using matchesFilters_clauses [of noStateFilter drone4_t4]
    matchesFilters_clauses [of hoverOnly drone4_t4]
  by (simp add: noStateFilter_def hoverOnly_def initialFilters_def drone4_t4_def)

section \<open>Projection onto the top-down map\<close>


lemma MAP_SIZE_eq: "MAP_SIZE = Finite 100"
  by (simp add: MAP_SIZE_def MAP_MAX_def MAP_MIN_def toNumber_small)

lemma EDGE_PADDING_eq: "EDGE_PADDING = Finite 4"
  by (simp add: EDGE_PADDING_def MAP_SIZE_eq toNumber_small)

lemma clampWithMargin_cases:
  "clampWithMargin NaN = NaN"
  "clampWithMargin PosInfinity = Finite 96"
  "clampWithMargin NegInfinity = Finite 4"
  "clampWithMargin (Finite r) = Finite (min (max r 4) 96)"
  by (simp_all add: clampWithMargin_def EDGE_PADDING_eq MAP_MIN_def MAP_MAX_def toNumber_small)

lemma clampWithMargin_NaN: "clampWithMargin v = NaN \<longleftrightarrow> v = NaN"
  by (cases v) (simp_all add: clampWithMargin_cases)

lemma clampWithMargin_range:
  "v \<noteq> NaN \<Longrightarrow> \<exists>r. clampWithMargin v = Finite r \<and> 4 \<le> r \<and> r \<le> 96"
  by (cases v) (simp_all add: clampWithMargin_cases)

lemma span_cases:
  "Math_max (toNumber e) (Finite 1) =
     (if OVERFLOW \<le> e then PosInfinity else Finite (max e 1))"
  using OVERFLOW_pos by (auto simp: toNumber_def max_def)

lemma normalizeToMap_NaN:
  assumes "spn = PosInfinity \<or> (\<exists>s. spn = Finite s \<and> 1 \<le> s)"
  shows "normalizeToMap (Finite c) (Finite m) spn = NaN \<longleftrightarrow>
           spn = PosInfinity \<and> OVERFLOW \<le> \<bar>c - m\<bar>"
proof -
  have scale: "js_add (js_mul v MAP_SIZE) (Finite MAP_MIN) = NaN \<longleftrightarrow> v = NaN" for v
    by (cases v) (simp_all add: MAP_SIZE_eq MAP_MIN_def toNumber_def)
  have quot: "js_div (toNumber q) spn = NaN \<longleftrightarrow> spn = PosInfinity \<and> OVERFLOW \<le> \<bar>q\<bar>" for q
    using assms OVERFLOW_pos by (auto simp: toNumber_def split: if_splits)
  show ?thesis
    by (simp add: normalizeToMap_def scale quot)
qed

lemma flip_NaN: "js_sub (Finite c) v = NaN \<longleftrightarrow> v = NaN"
  by (cases v) (simp_all add: js_sub_def)


lemma span_shape:
  "spanX bb = PosInfinity \<or> (\<exists>s. spanX bb = Finite s \<and> 1 \<le> s)"
  "spanZ bb = PosInfinity \<or> (\<exists>s. spanZ bb = Finite s \<and> 1 \<le> s)"
  by (simp_all add: spanX_def spanZ_def span_cases)

lemma span_PosInfinity:
  "spanX bb = PosInfinity \<longleftrightarrow> OVERFLOW \<le> vx (bbMax (bounds3d bb)) - vx (bbMin (bounds3d bb))"
  "spanZ bb = PosInfinity \<longleftrightarrow> OVERFLOW \<le> vz (bbMax (bounds3d bb)) - vz (bbMin (bounds3d bb))"
  by (simp_all add: spanX_def spanZ_def span_cases)

text \<open>
  C5 (as the code has it). The margin is \<open>0.04 * 100 = 4\<close>. Each span is at least 1
  (exactly 1 for a box of zero extent) or \<^verbatim>\<open>Infinity\<close>, so no division is by zero. A
  coordinate of the projected point is \<^verbatim>\<open>NaN\<close> exactly when, on its axis, both the extent
  of the box and the offset of the position from the box minimum overflow the double
  range (\<^verbatim>\<open>Infinity / Infinity\<close>); in every other case it is a finite number in
  \<open>[4, 96]\<close>. In particular, for a box whose extents do not overflow, both coordinates
  lie in \<open>[4, 96]\<close> for every position, inside the box or not.
\<close>

theorem mapPoint_within_margin:
  "EDGE_PADDING = Finite 4 \<and>
   (spanX bb = PosInfinity \<or> (\<exists>s. spanX bb = Finite s \<and> 1 \<le> s)) \<and>
   (spanZ bb = PosInfinity \<or> (\<exists>s. spanZ bb = Finite s \<and> 1 \<le> s)) \<and>
   spanX (Some \<lparr>bbMin = m, bbMax = m\<rparr>) = Finite 1 \<and>
   spanZ (Some \<lparr>bbMin = m, bbMax = m\<rparr>) = Finite 1 \<and>
   (fst (mapPoint bb d) = NaN \<longleftrightarrow>
      OVERFLOW \<le> vx (bbMax (bounds3d bb)) - vx (bbMin (bounds3d bb)) \<and>
      OVERFLOW \<le> \<bar>vx (position d) - vx (bbMin (bounds3d bb))\<bar>) \<and>
   (snd (mapPoint bb d) = NaN \<longleftrightarrow>
      OVERFLOW \<le> vz (bbMax (bounds3d bb)) - vz (bbMin (bounds3d bb)) \<and>
      OVERFLOW \<le> \<bar>vz (position d) - vz (bbMin (bounds3d bb))\<bar>) \<and>
   (fst (mapPoint bb d) \<noteq> NaN \<longrightarrow>
      (\<exists>r. fst (mapPoint bb d) = Finite r \<and> 4 \<le> r \<and> r \<le> 96)) \<and>
   (snd (mapPoint bb d) \<noteq> NaN \<longrightarrow>
      (\<exists>r. snd (mapPoint bb d) = Finite r \<and> 4 \<le> r \<and> r \<le> 96)) \<and>
   (vx (bbMax (bounds3d bb)) - vx (bbMin (bounds3d bb)) < OVERFLOW \<and>
    vz (bbMax (bounds3d bb)) - vz (bbMin (bounds3d bb)) < OVERFLOW \<longrightarrow>
      (\<exists>x y. mapPoint bb d = (Finite x, Finite y) \<and>
             4 \<le> x \<and> x \<le> 96 \<and> 4 \<le> y \<and> y \<le> 96))"
proof -
  let ?nx = "normalizeToMap (Finite (vx (position d))) (Finite (vx (bbMin (bounds3d bb)))) (spanX bb)"
  let ?nz = "normalizeToMap (Finite (vz (position d))) (Finite (vz (bbMin (bounds3d bb)))) (spanZ bb)"
  have fst_eq: "fst (mapPoint bb d) = clampWithMargin ?nx"
    and snd_eq: "snd (mapPoint bb d) = clampWithMargin (js_sub (Finite MAP_MAX) ?nz)"
    by (simp_all add: mapPoint_def Let_def)
  have nanx: "fst (mapPoint bb d) = NaN \<longleftrightarrow>
      OVERFLOW \<le> vx (bbMax (bounds3d bb)) - vx (bbMin (bounds3d bb)) \<and>
      OVERFLOW \<le> \<bar>vx (position d) - vx (bbMin (bounds3d bb))\<bar>"
    unfolding fst_eq clampWithMargin_NaN normalizeToMap_NaN [OF span_shape(1)] span_PosInfinity ..
  have nanz: "snd (mapPoint bb d) = NaN \<longleftrightarrow>
      OVERFLOW \<le> vz (bbMax (bounds3d bb)) - vz (bbMin (bounds3d bb)) \<and>
      OVERFLOW \<le> \<bar>vz (position d) - vz (bbMin (bounds3d bb))\<bar>"
    unfolding snd_eq clampWithMargin_NaN flip_NaN normalizeToMap_NaN [OF span_shape(2)]
      span_PosInfinity ..
  have rx: "fst (mapPoint bb d) \<noteq> NaN \<longrightarrow>
      (\<exists>r. fst (mapPoint bb d) = Finite r \<and> 4 \<le> r \<and> r \<le> 96)"
    unfolding fst_eq using clampWithMargin_range clampWithMargin_NaN by blast
  have rz: "snd (mapPoint bb d) \<noteq> NaN \<longrightarrow>
      (\<exists>r. snd (mapPoint bb d) = Finite r \<and> 4 \<le> r \<and> r \<le> 96)"
    unfolding snd_eq using clampWithMargin_range clampWithMargin_NaN by blast
  have both: "\<exists>x y. mapPoint bb d = (Finite x, Finite y) \<and>
             4 \<le> x \<and> x \<le> 96 \<and> 4 \<le> y \<and> y \<le> 96"
    if "vx (bbMax (bounds3d bb)) - vx (bbMin (bounds3d bb)) < OVERFLOW"
      and "vz (bbMax (bounds3d bb)) - vz (bbMin (bounds3d bb)) < OVERFLOW"
  proof -
    have "fst (mapPoint bb d) \<noteq> NaN" "snd (mapPoint bb d) \<noteq> NaN"
      using that nanx nanz by auto
    then obtain x y where "fst (mapPoint bb d) = Finite x" "4 \<le> x" "x \<le> 96"
      "snd (mapPoint bb d) = Finite y" "4 \<le> y" "y \<le> 96"
      using rx rz by blast
    then show ?thesis by (cases "mapPoint bb d") auto
  qed
  have degenerate: "spanX (Some \<lparr>bbMin = m, bbMax = m\<rparr>) = Finite 1"
    "spanZ (Some \<lparr>bbMin = m, bbMax = m\<rparr>) = Finite 1"
    using OVERFLOW_pos by (simp_all add: spanX_def spanZ_def span_cases bounds3d_def)
  show ?thesis
    using EDGE_PADDING_eq span_shape [of bb] degenerate nanx nanz rx rz both
    by (intro conjI impI) blast+
qed

text \<open>
  The claim as worded, for every finite position and every box, fails at the edge of the
  double range: for the box from \<open>-2^1023\<close> to \<open>2^1023\<close> and a drone at
  \<open>x = 2^1023\<close>, all finite doubles, \<^verbatim>\<open>max.x - min.x\<close> and \<^verbatim>\<open>x - min.x\<close> are both
  \<^verbatim>\<open>Infinity\<close>, their quotient is \<^verbatim>\<open>NaN\<close>, and \<^verbatim>\<open>Math.max\<close> and \<^verbatim>\<open>Math.min\<close> pass
  it on.
\<close>

theorem mapPoint_within_margin_counterexample:
  "\<bar>vx (position cornerDrone)\<bar> < OVERFLOW \<and>
   \<bar>vx (bbMin hugeBox)\<bar> < OVERFLOW \<and> \<bar>vx (bbMax hugeBox)\<bar> < OVERFLOW \<and>
   fst (mapPoint (Some hugeBox) cornerDrone) = NaN"
  by (simp add: mapPoint_def Let_def normalizeToMap_def spanX_def bounds3d_def hugeBox_def
      cornerDrone_def drone1_t0_def toNumber_def OVERFLOW_def clampWithMargin_cases
      MAP_SIZE_eq MAP_MIN_def)

text \<open>
  Drone-1 and drone-2 at time point 0 in the bounding box of the shipped dataset: the
  first lies inside the margin, the second on the right edge of the box and is moved in
  to 96.
\<close>

lemma excel_points:
  "mapPoint (Some excelBox) drone1_t0 = (Finite (1300 / 63), Finite (45700 / 527))"
  "mapPoint (Some excelBox) drone2_t0 = (Finite 96, Finite (32700 / 527))"
  by (simp_all add: mapPoint_def Let_def normalizeToMap_def spanX_def spanZ_def bounds3d_def
      excelBox_def drone1_t0_def drone2_t0_def clampWithMargin_cases MAP_SIZE_eq MAP_MIN_def
      MAP_MAX_def toNumber_small)

theorem mapPoint_within_margin_witness:
  "vx (bbMax (bounds3d (Some excelBox))) - vx (bbMin (bounds3d (Some excelBox))) < OVERFLOW \<and>
   vz (bbMax (bounds3d (Some excelBox))) - vz (bbMin (bounds3d (Some excelBox))) < OVERFLOW \<and>
   fst (mapPoint (Some excelBox) drone1_t0) \<noteq> NaN \<and>
   snd (mapPoint (Some excelBox) drone1_t0) \<noteq> NaN \<and>
   (\<exists>x y. mapPoint (Some excelBox) drone1_t0 = (Finite x, Finite y) \<and>
          4 \<le> x \<and> x \<le> 96 \<and> 4 \<le> y \<and> y \<le> 96) \<and>
   mapPoint (Some excelBox) drone1_t0 = (Finite (1300 / 63), Finite (45700 / 527)) \<and>
   mapPoint (Some excelBox) drone2_t0 = (Finite 96, Finite (32700 / 527))"
proof -
  have ex: "vx (bbMax (bounds3d (Some excelBox))) - vx (bbMin (bounds3d (Some excelBox))) < OVERFLOW"
    using OVERFLOW_gt by (simp add: bounds3d_def excelBox_def)
  have ez: "vz (bbMax (bounds3d (Some excelBox))) - vz (bbMin (bounds3d (Some excelBox))) < OVERFLOW"
    using OVERFLOW_gt by (simp add: bounds3d_def excelBox_def)
  note main = mapPoint_within_margin [where bb = "Some excelBox" and d = drone1_t0]
  have pt: "\<exists>x y. mapPoint (Some excelBox) drone1_t0 = (Finite x, Finite y) \<and>
          4 \<le> x \<and> x \<le> 96 \<and> 4 \<le> y \<and> y \<le> 96"
    using main ex ez by blast
  then have "fst (mapPoint (Some excelBox) drone1_t0) \<noteq> NaN"
    "snd (mapPoint (Some excelBox) drone1_t0) \<noteq> NaN"
    by auto
  then show ?thesis using ex ez pt excel_points by blast
qed

section \<open>Closest points of two segments\<close>

text \<open>
  C8. When both segments are single points \<open>p\<close> and \<open>q\<close>, the function returns
  \<open>p\<close> and \<open>q\<close> themselves and their Euclidean distance.
\<close>

theorem closestPoints_degenerate:
  "closestPointsBetweenSegments p p q q =
     \<lparr>pointA = p, pointB = q,
      distance = sqrt ((vx p - vx q)\<^sup>2 + (vy p - vy q)\<^sup>2 + (vz p - vz q)\<^sup>2)\<rparr>"
  by (simp add: closestPointsBetweenSegments_def vec_sub_def vec_dot_def EPS_def
      distanceTo_def Let_def power2_eq_square)

text \<open>
  For segments in general position the function divides by \<open>a\<close> and \<open>c\<close>, the squared
  lengths, where the textbook algorithm divides by \<open>a * c - b * b\<close>. The distance it
  returns is then the distance of two points of the segments, not always of the closest
  two: below it returns \<open>sqrt 2\<close> for two segments that pass at distance 1.
\<close>

lemma closestPoints_not_minimal:
  "distance (closestPointsBetweenSegments \<lparr>vx = 0, vy = 0, vz = 0\<rparr> \<lparr>vx = 2, vy = 0, vz = 0\<rparr>
               \<lparr>vx = 1, vy = - 1, vz = 1\<rparr> \<lparr>vx = 1, vy = 1, vz = 1\<rparr>) = sqrt 2 \<and>
   distanceTo (addScaledVector \<lparr>vx = 0, vy = 0, vz = 0\<rparr> \<lparr>vx = 2, vy = 0, vz = 0\<rparr> (1/2))
              (addScaledVector \<lparr>vx = 1, vy = - 1, vz = 1\<rparr> \<lparr>vx = 0, vy = 2, vz = 0\<rparr> (1/2)) = 1"
  by (simp add: closestPointsBetweenSegments_def vec_sub_def vec_dot_def
      EPS_def Let_def addScaledVector_def distanceTo_def)

section \<open>Trajectories\<close>

lemma set_map_filter: "set (List.map_filter g xs) = {y. \<exists>x\<in>set xs. g x = Some y}"
  by (induction xs) (auto simp: map_filter_simps split: option.splits)

lemma trajectoryPaths_set:
  "showTrajectories f \<Longrightarrow>
   set (trajectoryPaths ds f cur) = {p. \<exists>a\<in>set (uniqueIds cur). trajectoryFor ds f a = Some p}"
  by (simp add: trajectoryPaths_def set_map_filter)

lemma trajectoryFor_id: "trajectoryFor ds f a = Some p \<Longrightarrow> pathDroneId p = a"
  by (auto simp: trajectoryFor_def Let_def split: if_splits)

text \<open>
  C9. \<^verbatim>\<open>getDroneTrajectory\<close> returns the samples of the given id, each as often as the
  dataset holds it, in ascending order of time point. Filtering keeps that order. The
  history of an id is those samples that pass the filter; with at most one of them no path
  is emitted, with two or more the path has one point per sample of the history, in the
  order of the history. Among the ids of the current drones, with trajectories switched
  on, exactly those with two or more samples in their history get a path.
\<close>

theorem trajectoryFor_sorted_filtered:
  fixes ds f a
  defines "h \<equiv> filter (matchesFilters f) (getDroneTrajectory ds a)"
  shows "mset (getDroneTrajectory ds a) = mset (filter (\<lambda>d. droneId d = a) (drones ds)) \<and>
     sorted (map timePoint (getDroneTrajectory ds a)) \<and>
     mset h = mset (filter (\<lambda>d. droneId d = a \<and> matchesFilters f d) (drones ds)) \<and>
     sorted (map timePoint h) \<and>
     (length h \<le> 1 \<longrightarrow> trajectoryFor ds f a = None) \<and>
     (2 \<le> length h \<longrightarrow>
        (\<exists>p. trajectoryFor ds f a = Some p \<and> length (points p) = length h \<and>
             points p = map (\<lambda>e. (vx (position e), vy (position e), vz (position e))) h)) \<and>
     (showTrajectories f \<and> a \<in> set (uniqueIds cur) \<longrightarrow>
        (\<exists>p\<in>set (trajectoryPaths ds f cur). pathDroneId p = a) = (2 \<le> length h))"
proof -
  have t: "sorted (map timePoint (getDroneTrajectory ds a))"
    by (simp add: getDroneTrajectory_def)
  have m: "mset (getDroneTrajectory ds a) = mset (filter (\<lambda>d. droneId d = a) (drones ds))"
    by (simp add: getDroneTrajectory_def)
  have s: "sorted (map timePoint h)"
    unfolding h_def using t by (simp add: sorted_filter)
  have mh: "mset h = mset (filter (\<lambda>d. droneId d = a \<and> matchesFilters f d) (drones ds))"
    unfolding h_def by (simp add: getDroneTrajectory_def filter_sort conj_commute)
  have none: "length h \<le> 1 \<Longrightarrow> trajectoryFor ds f a = None"
    by (simp add: trajectoryFor_def h_def Let_def)
  have some: "2 \<le> length h \<Longrightarrow>
        (\<exists>p. trajectoryFor ds f a = Some p \<and> length (points p) = length h \<and>
             points p = map (\<lambda>e. (vx (position e), vy (position e), vz (position e))) h)"
    by (simp add: trajectoryFor_def h_def Let_def)
  have paths: "(\<exists>p\<in>set (trajectoryPaths ds f cur). pathDroneId p = a) = (2 \<le> length h)"
    if sh: "showTrajectories f" and a: "a \<in> set (uniqueIds cur)"
  proof
    assume "\<exists>p\<in>set (trajectoryPaths ds f cur). pathDroneId p = a"
    then obtain p b where "trajectoryFor ds f b = Some p" "pathDroneId p = a"
      unfolding trajectoryPaths_set [OF sh] by blast
    then have "trajectoryFor ds f a = Some p" using trajectoryFor_id by blast
    then show "2 \<le> length h" using none by (cases "length h \<le> 1") auto
  next
    assume "2 \<le> length h"
    then obtain p where p: "trajectoryFor ds f a = Some p" using some by blast
    then have "p \<in> set (trajectoryPaths ds f cur)"
      unfolding trajectoryPaths_set [OF sh] using a by blast
    then show "\<exists>p\<in>set (trajectoryPaths ds f cur). pathDroneId p = a"
      using trajectoryFor_id [OF p] by blast
  qed
  show ?thesis using t m s mh none some paths by blast
qed

lemma drone1_history:
  "getDroneTrajectory excelSample ''drone-1'' = [drone1_t0, drone1_t1]"
  by (simp add: getDroneTrajectory_def excelSample_def drone_fixtures)

text \<open>
  Scenario D on the excerpt: with only the swarm \<open>alpha\<close> selected drone-1 has one
  matching sample and no path; with all filters open it has two and a path of two points.
\<close>

theorem trajectoryFor_sorted_filtered_witness:
  "length (filter (matchesFilters alphaOnly) (getDroneTrajectory excelSample ''drone-1'')) \<le> 1 \<and>
   trajectoryFor excelSample alphaOnly ''drone-1'' = None \<and>
   2 \<le> length (filter (matchesFilters trajectoriesOn) (getDroneTrajectory excelSample ''drone-1'')) \<and>
   showTrajectories trajectoriesOn \<and> ''drone-1'' \<in> set (uniqueIds [drone1_t0, drone2_t0]) \<and>
   trajectoryPaths excelSample trajectoriesOn [drone1_t0, drone2_t0] \<noteq> [] \<and>
   map_option points (trajectoryFor excelSample trajectoriesOn ''drone-1'') =
     Some [(6, 5, 7), (21, 23, 10.4)]"
proof -
  have a: "filter (matchesFilters alphaOnly) (getDroneTrajectory excelSample ''drone-1'') = [drone1_t1]"
    by (simp add: drone1_history matchesFilters_def alphaOnly_def initialFilters_def drone_fixtures)
  have b: "filter (matchesFilters trajectoriesOn) (getDroneTrajectory excelSample ''drone-1'')
      = [drone1_t0, drone1_t1]"
    by (simp add: drone1_history matchesFilters_def trajectoriesOn_def initialFilters_def
        drone_fixtures)
  have sh: "showTrajectories trajectoriesOn"
    by (simp add: trajectoriesOn_def initialFilters_def)
  have u: "''drone-1'' \<in> set (uniqueIds [drone1_t0, drone2_t0])"
    by (simp add: uniqueIds_def drone_fixtures)
  have pts: "map (\<lambda>e. (vx (position e), vy (position e), vz (position e))) [drone1_t0, drone1_t1]
      = [(6, 5, 7), (21, 23, 10.4)]"
    by (simp add: drone_fixtures)
  note one = trajectoryFor_sorted_filtered
      [where ds = excelSample and f = alphaOnly and a = "''drone-1''"]
  note two = trajectoryFor_sorted_filtered
      [where ds = excelSample and f = trajectoriesOn and a = "''drone-1''"
        and cur = "[drone1_t0, drone2_t0]"]
  have none: "trajectoryFor excelSample alphaOnly ''drone-1'' = None"
    using one unfolding a by simp
  have "\<exists>p\<in>set (trajectoryPaths excelSample trajectoriesOn [drone1_t0, drone2_t0]).
      pathDroneId p = ''drone-1''"
    using two sh u unfolding b by simp
  then have path: "trajectoryPaths excelSample trajectoriesOn [drone1_t0, drone2_t0] \<noteq> []"
    by auto
  have "\<exists>p. trajectoryFor excelSample trajectoriesOn ''drone-1'' = Some p \<and>
        length (points p) = length [drone1_t0, drone1_t1] \<and>
        points p = [(6, 5, 7), (21, 23, 10.4)]"
    using two unfolding b pts by simp
  then have some: "map_option points (trajectoryFor excelSample trajectoriesOn ''drone-1'') =
      Some [(6, 5, 7), (21, 23, 10.4)]"
    by auto
  show ?thesis
    unfolding a b using none sh u path some by simp
qed

section \<open>Detection coverage and overlap\<close>









lemma js_add_Finite: "js_add (Finite a) (Finite b) = toNumber (a + b)"
  by simp





































section \<open>Near intersections of velocity vectors\<close>


















end
